theory Spec2Isabelle
  imports Main "HOL-Library.Word"
begin

section \<open>Data model of the chat backend (src/backend/server.py)\<close>

text \<open>
  A stored message is a Python dict with string keys and string values, kept here as an
  association list in insertion order; \<open>msg.get(k)\<close> is a lookup that yields \<open>None\<close> for an
  absent key. The records \<open>chat\<close> writes carry the keys role, content and timestamp.
\<close>

type_synonym pydict = "(string \<times> string) list"

definition dict_get :: "pydict \<Rightarrow> string \<Rightarrow> string option" where
  "dict_get msg k = map_of msg k"

text \<open>
  The LangChain message objects built by \<open>to_lc_messages\<close>. The content of a history
  message is whatever \<open>msg.get("content")\<close> returned, hence optional.
\<close>

datatype lc_message =
    SystemMessage string
  | HumanMessage "string option"
  | AIMessage "string option"

text \<open>
  Exceptions as values. A botocore \<open>ClientError\<close> carries the error code of the service's
  answer; every exception carries the text that \<open>str(e)\<close> gives.
\<close>

datatype exn =
    ClientError string string
  | JSONDecodeError string
  | OtherException string

fun str_exn :: "exn \<Rightarrow> string" where
  "str_exn (ClientError code text) = text"
| "str_exn (JSONDecodeError text) = text"
| "str_exn (OtherException text) = text"

text \<open>
  What an endpoint gives back to the web framework: a returned value, a raised
  \<open>HTTPException\<close> (status code and detail), or any other exception escaping the handler.
\<close>

datatype 'a outcome =
    Returned 'a
  | HTTPException nat string
  | Uncaught exn

datatype ChatRequest = ChatRequest (message: string) (session_id: "string option")

datatype ChatResponse = ChatResponse (response: string) (session_id: string)

text \<open>
  Process-wide configuration, read once from the environment at start-up. The system
  prompt is the text returned by \<open>prompt()\<close> of context.py; it embeds the constant
  \<open>resources.healthproct\<close>, which is not part of the sources, so the whole text is a
  parameter.
\<close>

record config =
  USE_S3 :: bool
  S3_BUCKET :: string
  MEMORY_DIR :: string
  system_prompt :: string

text \<open>
  The content of a file or of an object. The \<open>json\<close> module is a library: a document
  written by \<open>json.dump\<close> is identified with the list of dicts it denotes (for dicts of
  strings, \<open>json.loads\<close> inverts \<open>json.dumps\<close>), and a text that is not a JSON document
  is kept apart, with the description of the decode error \<open>json.load\<close> raises on it.
\<close>

datatype content =
    Document "pydict list"
  | Malformed string

text \<open>
  The world outside the process: the objects of the object store by bucket and key, the
  files of the local file system by path string, and the message sequences the hosted
  model has been sent so far.
\<close>

record world =
  s3_objects :: "string \<times> string \<Rightarrow> content option"
  files :: "string \<Rightarrow> content option"
  llm_calls :: "lc_message list list"

text \<open>
  A write can fail before anything is stored (the put is refused, the directory or the
  file cannot be opened), or, for a local file, after \<open>open(path, "w")\<close> has truncated it,
  which leaves a torn text behind.
\<close>

datatype write_fault =
    Refused exn
  | Torn exn string

text \<open>
  What the environment does during one request: the fault (if any) the storage layer
  raises on a read, the answer of the hosted model to a message sequence, the fault (if
  any) on the write, the clock reading \<open>datetime.now().isoformat()\<close> and the value drawn
  by \<open>uuid.uuid4()\<close>.
\<close>

record env =
  read_fault :: "exn option"
  llm_invoke :: "lc_message list \<Rightarrow> exn + string"
  write_fault :: "write_fault option"
  now_isoformat :: string
  uuid4 :: "128 word"

section \<open>Library functions the code calls\<close>

text \<open>\<open>str(uuid)\<close>: 32 lower-case hex digits, zero padded, grouped 8-4-4-4-12.\<close>

definition hex_digit :: "nat \<Rightarrow> char" where
  "hex_digit n = ''0123456789abcdef'' ! n"

fun hex_pad :: "nat \<Rightarrow> nat \<Rightarrow> string" where
  "hex_pad 0 n = []"
| "hex_pad (Suc k) n = hex_pad k (n div 16) @ [hex_digit (n mod 16)]"

definition str_uuid :: "128 word \<Rightarrow> string" where
  "str_uuid u =
     (let hex = hex_pad 32 (unat u)
      in take 8 hex @ ''-'' @ take 4 (drop 8 hex) @ ''-'' @ take 4 (drop 12 hex) @ ''-''
         @ take 4 (drop 16 hex) @ ''-'' @ drop 20 hex)"

text \<open>\<open>s.startswith("/")\<close> and \<open>s.endswith("/")\<close>.\<close>

fun starts_with_sep :: "string \<Rightarrow> bool" where
  "starts_with_sep [] = False"
| "starts_with_sep (c # cs) = (c = CHR ''/'')"

definition ends_with_sep :: "string \<Rightarrow> bool" where
  "ends_with_sep s = (s \<noteq> [] \<and> last s = CHR ''/'')"

text \<open>
  \<open>os.path.join(a, b)\<close> on a POSIX system: an absolute second component replaces the
  first, and so does any second component when the first is empty; otherwise the two
  are joined by one separator.
\<close>

definition path_join :: "string \<Rightarrow> string \<Rightarrow> string" where
  "path_join a b =
     (if starts_with_sep b \<or> a = [] then b
      else if ends_with_sep a then a @ b
      else a @ ''/'' @ b)"

text \<open>The slice \<open>xs[-n:]\<close> for a positive \<open>n\<close>: the last \<open>n\<close> elements, all of them if fewer.\<close>

definition slice_last :: "nat \<Rightarrow> 'a list \<Rightarrow> 'a list" where
  "slice_last n xs = drop (length xs - n) xs"

text \<open>\<open>json.load\<close> on the content of a file or object.\<close>

fun json_load :: "content \<Rightarrow> exn + pydict list" where
  "json_load (Document msgs) = Inr msgs"
| "json_load (Malformed text) = Inl (JSONDecodeError text)"

text \<open>
  \<open>s3_client.get_object\<close>: a fault of the service or of the network is raised as it
  comes; otherwise an absent key raises a \<open>ClientError\<close> with code NoSuchKey.
\<close>

definition get_object :: "env \<Rightarrow> world \<Rightarrow> string \<Rightarrow> string \<Rightarrow> exn + content" where
  "get_object e w bucket key =
     (case read_fault e of
        Some x \<Rightarrow> Inl x
      | None \<Rightarrow>
          (case s3_objects w (bucket, key) of
             None \<Rightarrow> Inl (ClientError ''NoSuchKey'' ''The specified key does not exist.'')
           | Some c \<Rightarrow> Inr c))"

text \<open>\<open>s3_client.put_object\<close>: the object is replaced as a whole, or not at all.\<close>

definition put_object ::
    "env \<Rightarrow> world \<Rightarrow> string \<Rightarrow> string \<Rightarrow> content \<Rightarrow> (exn + unit) \<times> world" where
  "put_object e w bucket key body =
     (case write_fault e of
        Some (Refused x) \<Rightarrow> (Inl x, w)
      | Some (Torn x text) \<Rightarrow> (Inl x, w)
      | None \<Rightarrow> (Inr (), w\<lparr>s3_objects := (s3_objects w)((bucket, key) \<mapsto> body)\<rparr>))"

text \<open>\<open>os.path.exists\<close>, and reading an existing file opened with mode "r".\<close>

definition path_exists :: "world \<Rightarrow> string \<Rightarrow> bool" where
  "path_exists w p = (files w p \<noteq> None)"

definition read_file :: "env \<Rightarrow> world \<Rightarrow> string \<Rightarrow> exn + content" where
  "read_file e w p =
     (case read_fault e of
        Some x \<Rightarrow> Inl x
      | None \<Rightarrow>
          (case files w p of
             None \<Rightarrow> Inl (OtherException ''No such file or directory'')
           | Some c \<Rightarrow> Inr c))"

text \<open>
  \<open>os.makedirs(MEMORY_DIR, exist_ok=True)\<close>, \<open>open(path, "w")\<close> and \<open>json.dump\<close> into the
  file.
\<close>

definition write_file :: "env \<Rightarrow> world \<Rightarrow> string \<Rightarrow> content \<Rightarrow> (exn + unit) \<times> world" where
  "write_file e w p body =
     (case write_fault e of
        Some (Refused x) \<Rightarrow> (Inl x, w)
      | Some (Torn x text) \<Rightarrow> (Inl x, w\<lparr>files := (files w)(p \<mapsto> Malformed text)\<rparr>)
      | None \<Rightarrow> (Inr (), w\<lparr>files := (files w)(p \<mapsto> body)\<rparr>))"

section \<open>Memory management functions\<close>

definition get_memory_path :: "string \<Rightarrow> string" where
  "get_memory_path sid = sid @ ''.json''"

text \<open>
  \<open>load_conversation\<close>: in the object-store branch the \<open>try\<close> covers both the retrieval
  and the decoding, and its handler catches \<open>ClientError\<close> only.
\<close>

definition load_conversation :: "config \<Rightarrow> env \<Rightarrow> world \<Rightarrow> string \<Rightarrow> exn + pydict list" where
  "load_conversation cfg e w sid =
     (if USE_S3 cfg then
        (case (case get_object e w (S3_BUCKET cfg) (get_memory_path sid) of
                 Inl x \<Rightarrow> Inl x
               | Inr body \<Rightarrow> json_load body) of
           Inr msgs \<Rightarrow> Inr msgs
         | Inl (ClientError code text) \<Rightarrow>
             (if code = ''NoSuchKey'' then Inr [] else Inl (ClientError code text))
         | Inl x \<Rightarrow> Inl x)
      else
        (let file_path = path_join (MEMORY_DIR cfg) (get_memory_path sid)
         in if path_exists w file_path then
              (case read_file e w file_path of
                 Inl x \<Rightarrow> Inl x
               | Inr body \<Rightarrow> json_load body)
            else Inr []))"

definition save_conversation ::
    "config \<Rightarrow> env \<Rightarrow> world \<Rightarrow> string \<Rightarrow> pydict list \<Rightarrow> (exn + unit) \<times> world" where
  "save_conversation cfg e w sid messages =
     (if USE_S3 cfg then
        put_object e w (S3_BUCKET cfg) (get_memory_path sid) (Document messages)
      else
        (let file_path = path_join (MEMORY_DIR cfg) (get_memory_path sid)
         in write_file e w file_path (Document messages)))"

text \<open>\<open>to_lc_messages\<close>: the loop appends to the list that starts with the system message.\<close>

fun to_lc_loop :: "lc_message list \<Rightarrow> pydict list \<Rightarrow> lc_message list" where
  "to_lc_loop lc_messages [] = lc_messages"
| "to_lc_loop lc_messages (msg # conversation) =
     (let role = dict_get msg ''role'';
          content = dict_get msg ''content''
      in if role = Some ''user'' then
           to_lc_loop (lc_messages @ [HumanMessage content]) conversation
         else if role = Some ''assistant'' then
           to_lc_loop (lc_messages @ [AIMessage content]) conversation
         else to_lc_loop lc_messages conversation)"

definition to_lc_messages :: "pydict list \<Rightarrow> string \<Rightarrow> lc_message list" where
  "to_lc_messages conversation sys_prompt = to_lc_loop [SystemMessage sys_prompt] conversation"

section \<open>API endpoints\<close>

text \<open>
  The body of the \<open>try\<close> block of \<open>chat\<close>. \<open>request.session_id or str(uuid.uuid4())\<close> takes
  the generated identifier when the field is absent and when it is the empty string.
\<close>

definition chat_session_id :: "env \<Rightarrow> ChatRequest \<Rightarrow> string" where
  "chat_session_id e request =
     (case ChatRequest.session_id request of
        None \<Rightarrow> str_uuid (uuid4 e)
      | Some s \<Rightarrow> if s = [] then str_uuid (uuid4 e) else s)"

text \<open>
  Lines 147 to 150: the message sequence for the model, built from the last ten stored
  records, the system prompt and the new user message.
\<close>

definition chat_lc_messages :: "config \<Rightarrow> pydict list \<Rightarrow> ChatRequest \<Rightarrow> lc_message list" where
  "chat_lc_messages cfg conversation request =
     to_lc_messages (slice_last 10 conversation) (system_prompt cfg)
     @ [HumanMessage (Some (message request))]"

text \<open>Lines 157 to 167: the two records of the turn, with one clock reading.\<close>

definition turn_records :: "string \<Rightarrow> string \<Rightarrow> string \<Rightarrow> pydict list" where
  "turn_records user_message assistant_response current_time =
     [[(''role'', ''user''), (''content'', user_message), (''timestamp'', current_time)],
      [(''role'', ''assistant''), (''content'', assistant_response),
       (''timestamp'', current_time)]]"

definition chat_try ::
    "config \<Rightarrow> env \<Rightarrow> world \<Rightarrow> ChatRequest \<Rightarrow> (exn + ChatResponse) \<times> world" where
  "chat_try cfg e w request =
     (let sid = chat_session_id e request
      in case load_conversation cfg e w sid of
           Inl x \<Rightarrow> (Inl x, w)
         | Inr conversation \<Rightarrow>
             (let lc_messages = chat_lc_messages cfg conversation request;
                  w1 = w\<lparr>llm_calls := llm_calls w @ [lc_messages]\<rparr>
              in case llm_invoke e lc_messages of
                   Inl x \<Rightarrow> (Inl x, w1)
                 | Inr assistant_response \<Rightarrow>
                     (let current_time = now_isoformat e;
                          conversation2 = conversation @
                            turn_records (message request) assistant_response current_time
                      in case save_conversation cfg e w1 sid conversation2 of
                           (Inl x, w2) \<Rightarrow> (Inl x, w2)
                         | (Inr u, w2) \<Rightarrow> (Inr (ChatResponse assistant_response sid), w2))))"

text \<open>\<open>chat\<close>: the handler turns every exception of the block into a status 500.\<close>

definition chat ::
    "config \<Rightarrow> env \<Rightarrow> world \<Rightarrow> ChatRequest \<Rightarrow> ChatResponse outcome \<times> world" where
  "chat cfg e w request =
     (case chat_try cfg e w request of
        (Inr r, w2) \<Rightarrow> (Returned r, w2)
      | (Inl x, w2) \<Rightarrow> (HTTPException 500 (''Internal Server Error: '' @ str_exn x), w2))"

text \<open>\<open>get_conversation\<close> returns the session id and the loaded messages.\<close>

definition get_conversation ::
    "config \<Rightarrow> env \<Rightarrow> world \<Rightarrow> string \<Rightarrow> (string \<times> pydict list) outcome" where
  "get_conversation cfg e w sid =
     (case load_conversation cfg e w sid of
        Inr conversation \<Rightarrow> Returned (sid, conversation)
      | Inl x \<Rightarrow> HTTPException 500 (str_exn x))"

section \<open>Notions used to state the properties\<close>

text \<open>
  The formatter as the specification words it: a record with role user gives one human
  message, a record with role assistant gives one model message, any other record gives
  nothing.
\<close>

definition spec_format_record :: "pydict \<Rightarrow> lc_message list" where
  "spec_format_record msg =
     (if dict_get msg ''role'' = Some ''user'' then [HumanMessage (dict_get msg ''content'')]
      else if dict_get msg ''role'' = Some ''assistant'' then [AIMessage (dict_get msg ''content'')]
      else [])"

text \<open>
  Where the history of a session lives (the key in the bucket, or the path of the file),
  and what is found there. Files and objects are identified by these strings.
\<close>

definition storage_location :: "config \<Rightarrow> string \<Rightarrow> string" where
  "storage_location cfg sid =
     (if USE_S3 cfg then get_memory_path sid
      else path_join (MEMORY_DIR cfg) (get_memory_path sid))"

definition stored :: "config \<Rightarrow> world \<Rightarrow> string \<Rightarrow> content option" where
  "stored cfg w sid =
     (if USE_S3 cfg then s3_objects w (S3_BUCKET cfg, get_memory_path sid)
      else files w (path_join (MEMORY_DIR cfg) (get_memory_path sid)))"

text \<open>The test of line 80 on a caught exception: a \<open>ClientError\<close> with code NoSuchKey.\<close>

fun is_no_such_key :: "exn \<Rightarrow> bool" where
  "is_no_such_key (ClientError code text) = (code = ''NoSuchKey'')"
| "is_no_such_key x = False"

text \<open>
  The exception, if any, that the storage layer raises when \<open>load_conversation\<close> reads
  the document of a session: from \<open>get_object\<close> in the object store, from reading the
  file when it exists.
\<close>

definition storage_fault :: "config \<Rightarrow> env \<Rightarrow> world \<Rightarrow> string \<Rightarrow> exn option" where
  "storage_fault cfg e w sid =
     (if USE_S3 cfg then
        (case get_object e w (S3_BUCKET cfg) (get_memory_path sid) of
           Inl x \<Rightarrow> Some x
         | Inr body \<Rightarrow> None)
      else if path_exists w (path_join (MEMORY_DIR cfg) (get_memory_path sid)) then
        (case read_file e w (path_join (MEMORY_DIR cfg) (get_memory_path sid)) of
           Inl x \<Rightarrow> Some x
         | Inr body \<Rightarrow> None)
      else None)"

section \<open>Sample configurations, environments and worlds\<close>

definition cfg_local :: config where
  "cfg_local = \<lparr>USE_S3 = False, S3_BUCKET = [], MEMORY_DIR = ''memory'',
     system_prompt = ''You are a summarizer.''\<rparr>"

definition cfg_s3 :: config where
  "cfg_s3 = \<lparr>USE_S3 = True, S3_BUCKET = ''chat-memory'', MEMORY_DIR = ''memory'',
     system_prompt = ''You are a summarizer.''\<rparr>"

definition cfg_abs :: config where
  "cfg_abs = \<lparr>USE_S3 = False, S3_BUCKET = [], MEMORY_DIR = ''/data'',
     system_prompt = ''You are a summarizer.''\<rparr>"

text \<open>An environment without faults, in which the model always answers Hi.\<close>

definition env_ok :: "128 word \<Rightarrow> env" where
  "env_ok u = \<lparr>read_fault = None, llm_invoke = (\<lambda>lc_messages. Inr ''Hi''),
     write_fault = None, now_isoformat = ''2024-05-01T10:00:00'', uuid4 = u\<rparr>"

definition world_empty :: world where
  "world_empty = \<lparr>s3_objects = (\<lambda>k. None), files = (\<lambda>p. None), llm_calls = []\<rparr>"

text \<open>A stored history of eleven records for the session s1, in a local file.\<close>

definition sample_record :: "string \<Rightarrow> string \<Rightarrow> pydict" where
  "sample_record r c = [(''role'', r), (''content'', c), (''timestamp'', ''2024-04-30T09:00:00'')]"

definition history11 :: "pydict list" where
  "history11 =
     [sample_record ''assistant'' ''a0'',
      sample_record ''user'' ''q1'', sample_record ''assistant'' ''a1'',
      sample_record ''user'' ''q2'', sample_record ''assistant'' ''a2'',
      sample_record ''user'' ''q3'', sample_record ''assistant'' ''a3'',
      sample_record ''user'' ''q4'', sample_record ''assistant'' ''a4'',
      sample_record ''user'' ''q5'', sample_record ''assistant'' ''a5'']"

definition world_s1 :: world where
  "world_s1 = world_empty\<lparr>files := (files world_empty)(''memory/s1.json'' \<mapsto> Document history11)\<rparr>"

text \<open>A local file for the session s1 that is not a JSON document.\<close>

definition world_bad :: world where
  "world_bad = world_empty\<lparr>files := (files world_empty)(''memory/s1.json'' \<mapsto>
     Malformed ''Expecting value: line 1 column 1 (char 0)'')\<rparr>"

text \<open>Environments in which the read, the model call or the write raises.\<close>

definition env_read_fault :: "exn \<Rightarrow> env" where
  "env_read_fault x = (env_ok 1)\<lparr>read_fault := Some x\<rparr>"

definition env_llm_fault :: "exn \<Rightarrow> env" where
  "env_llm_fault x = (env_ok 1)\<lparr>llm_invoke := (\<lambda>lc_messages. Inl x)\<rparr>"

definition env_write_fault :: "exn \<Rightarrow> env" where
  "env_write_fault x = (env_ok 1)\<lparr>write_fault := Some (Refused x)\<rparr>"

text \<open>Two values as \<open>uuid.uuid4()\<close> draws them.\<close>

definition uuid_a :: "128 word" where
  "uuid_a = 0x3f2504e04f8941d39a0c0305e82c3301"

definition uuid_b :: "128 word" where
  "uuid_b = 0x9b2e7a1c5d3f4e8aa1b2c3d4e5f60718"

section \<open>The formatter and the history window\<close>

lemma to_lc_loop_concat:
  "to_lc_loop acc conversation = acc @ concat (map spec_format_record conversation)"
  by (induction conversation arbitrary: acc) (simp_all add: spec_format_record_def Let_def)

lemma length_spec_format_record: "length (spec_format_record msg) \<le> 1"
  by (simp add: spec_format_record_def)

lemma length_concat_format:
  "length (concat (map spec_format_record conversation)) \<le> length conversation"
proof (induction conversation)
  case Nil
  show ?case by simp
next
  case (Cons msg conversation)
  have "length (spec_format_record msg) \<le> 1" by (rule length_spec_format_record)
  with Cons show ?case by simp
qed

lemma length_slice_last: "length (slice_last n xs) = min n (length xs)"
  by (simp add: slice_last_def)

lemma slice_last_suffix: "\<exists>older. xs = older @ slice_last n xs"
  by (metis append_take_drop_id slice_last_def)

section \<open>Generated session identifiers\<close>

text \<open>
  The text of a UUID determines its value: without the dashes it is the fixed-width hex
  numeral of a number below \<open>16 ^ 32\<close>. It never begins with a path separator.
\<close>

lemma hex_digit_range: "n < 16 \<Longrightarrow> hex_digit n \<in> set ''0123456789abcdef''"
  unfolding hex_digit_def by (rule nth_mem) simp

lemma hex_digit_inj: "n < 16 \<Longrightarrow> m < 16 \<Longrightarrow> hex_digit n = hex_digit m \<Longrightarrow> n = m"
proof -
  assume a: "n < 16" "m < 16" "hex_digit n = hex_digit m"
  have d: "distinct ''0123456789abcdef''" by simp
  have l: "length ''0123456789abcdef'' = 16" by simp
  from a d l show "n = m"
    unfolding hex_digit_def by (metis nth_eq_iff_index_eq)
qed

lemma length_hex_pad: "length (hex_pad k n) = k"
  by (induction k arbitrary: n) simp_all

lemma set_hex_pad: "set (hex_pad k n) \<subseteq> set ''0123456789abcdef''"
proof (induction k arbitrary: n)
  case 0
  show ?case by simp
next
  case (Suc k)
  have "hex_digit (n mod 16) \<in> set ''0123456789abcdef''"
    by (rule hex_digit_range) simp
  with Suc [of "n div 16"] show ?case by simp
qed

lemma hex_pad_inj:
  "n < 16 ^ k \<Longrightarrow> m < 16 ^ k \<Longrightarrow> hex_pad k n = hex_pad k m \<Longrightarrow> n = m"
proof (induction k arbitrary: n m)
  case 0
  then show ?case by simp
next
  case (Suc k)
  from Suc.prems(3) have e1: "hex_pad k (n div 16) = hex_pad k (m div 16)"
    and e2: "hex_digit (n mod 16) = hex_digit (m mod 16)" by simp_all
  from Suc.prems(1) have "n div 16 < 16 ^ k"
    by (simp add: less_mult_imp_div_less mult.commute)
  moreover from Suc.prems(2) have "m div 16 < 16 ^ k"
    by (simp add: less_mult_imp_div_less mult.commute)
  ultimately have q: "n div 16 = m div 16" using e1 by (rule Suc.IH)
  have r: "n mod 16 = m mod 16" by (rule hex_digit_inj [OF _ _ e2]) simp_all
  from q r show ?case by (metis div_mult_mod_eq)
qed

lemma hex_no_dash: "filter (\<lambda>c. c \<noteq> CHR ''-'') (hex_pad k n) = hex_pad k n"
proof -
  have "\<forall>c \<in> set (hex_pad k n). c \<noteq> CHR ''-''"
    using set_hex_pad [of k n] by auto
  then show ?thesis by simp
qed

lemma take_drop_step: "take a (drop b xs) @ drop (a + b) xs = drop b xs"
  using append_take_drop_id [of a "drop b xs"] by simp

lemma filter_take_drop:
  "filter P (take a (drop b xs)) = take a (drop b xs) "
  if "filter P xs = xs"
  using that by (metis filter_id_conv in_set_dropD in_set_takeD)

lemma str_uuid_undash:
  "filter (\<lambda>c. c \<noteq> CHR ''-'') (str_uuid u) = hex_pad 32 (unat u)"
proof -
  define h where "h = hex_pad 32 (unat u)"
  have f: "filter (\<lambda>c. c \<noteq> CHR ''-'') h = h" unfolding h_def by (rule hex_no_dash)
  have ft: "\<And>a. filter (\<lambda>c. c \<noteq> CHR ''-'') (take a h) = take a h"
    using f by (metis filter_id_conv in_set_takeD)
  have fd: "\<And>b. filter (\<lambda>c. c \<noteq> CHR ''-'') (drop b h) = drop b h"
    using f by (metis filter_id_conv in_set_dropD)
  have ftd: "\<And>a b. filter (\<lambda>c. c \<noteq> CHR ''-'') (take a (drop b h)) = take a (drop b h)"
    using f by (rule filter_take_drop)
  have parts: "take 8 h @ take 4 (drop 8 h) @ take 4 (drop 12 h) @ take 4 (drop 16 h) @ drop 20 h = h"
  proof -
    have s4: "take 4 (drop 16 h) @ drop 20 h = drop 16 h"
      using take_drop_step [of 4 16 h] by simp
    have s3: "take 4 (drop 12 h) @ drop 16 h = drop 12 h"
      using take_drop_step [of 4 12 h] by simp
    have s2: "take 4 (drop 8 h) @ drop 12 h = drop 8 h"
      using take_drop_step [of 4 8 h] by simp
    have s1: "take 8 h @ drop 8 h = h" by simp
    show ?thesis by (simp only: s4 s3 s2 s1)
  qed
  show ?thesis
    unfolding str_uuid_def Let_def h_def [symmetric]
    by (simp add: ft fd ftd parts)
qed

lemma str_uuid_inj: "str_uuid u = str_uuid v \<Longrightarrow> u = v"
proof -
  assume "str_uuid u = str_uuid v"
  then have "hex_pad 32 (unat u) = hex_pad 32 (unat v)"
    using str_uuid_undash [of u] str_uuid_undash [of v] by simp
  moreover have "unat u < 16 ^ 32" using unsigned_less [of u] by simp
  moreover have "unat v < 16 ^ 32" using unsigned_less [of v] by simp
  ultimately have "unat u = unat v" by (rule hex_pad_inj [rotated 2])
  then show "u = v" by (simp add: word_unat_eq_iff)
qed

lemma str_uuid_relative: "\<not> starts_with_sep (str_uuid u)"
proof -
  define h where "h = hex_pad 32 (unat u)"
  have "length h = 32" unfolding h_def by (rule length_hex_pad)
  then obtain c cs where h: "h = c # cs" by (cases h) simp_all
  have "c \<in> set h" using h by simp
  then have "c \<in> set ''0123456789abcdef''" using set_hex_pad [of 32 "unat u"] h_def by blast
  then have "c \<noteq> CHR ''/''" by auto
  then show ?thesis unfolding str_uuid_def Let_def h_def [symmetric] h by simp
qed

lemma str_uuid_nonempty: "str_uuid u \<noteq> []"
  unfolding str_uuid_def Let_def by simp

section \<open>Keys and paths\<close>

text \<open>
  The key derivation is injective. Joining under the directory is injective on relative
  keys, and on all keys when the directory itself is relative.
\<close>

lemma get_memory_path_inj: "get_memory_path a = get_memory_path b \<Longrightarrow> a = b"
  by (simp add: get_memory_path_def)

lemma starts_with_sep_memory_path:
  "starts_with_sep (get_memory_path sid) = starts_with_sep sid"
  by (cases sid) (simp_all add: get_memory_path_def)

lemma starts_with_sep_append:
  "a \<noteq> [] \<Longrightarrow> starts_with_sep (a @ b) = starts_with_sep a"
  by (cases a) simp_all

lemma path_join_relative_inj:
  assumes "\<not> starts_with_sep b" "\<not> starts_with_sep c" "path_join a b = path_join a c"
  shows "b = c"
  using assms by (simp add: path_join_def split: if_splits)

lemma path_join_relative_dir_inj:
  assumes "\<not> starts_with_sep a" "path_join a b = path_join a c"
  shows "b = c"
proof (cases "a = []")
  case True
  with assms(2) show ?thesis by (simp add: path_join_def)
next
  case False
  have rel: "\<And>x. \<not> starts_with_sep x \<Longrightarrow> \<not> starts_with_sep (path_join a x)"
    using assms(1) False by (simp add: path_join_def starts_with_sep_append)
  have ab: "\<And>x. starts_with_sep x \<Longrightarrow> path_join a x = x"
    by (simp add: path_join_def)
  show ?thesis
  proof (cases "starts_with_sep b")
    case b: True
    show ?thesis
    proof (cases "starts_with_sep c")
      case True
      with b assms(2) show ?thesis by (simp add: ab)
    next
      case c: False
      from b have "starts_with_sep (path_join a b)" by (simp add: ab)
      moreover from c have "\<not> starts_with_sep (path_join a c)" by (rule rel)
      ultimately show ?thesis using assms(2) by simp
    qed
  next
    case b: False
    show ?thesis
    proof (cases "starts_with_sep c")
      case True
      then have "starts_with_sep (path_join a c)" by (simp add: ab)
      moreover from b have "\<not> starts_with_sep (path_join a b)" by (rule rel)
      ultimately show ?thesis using assms(2) by simp
    next
      case False
      with b show ?thesis using assms(2) by (rule path_join_relative_inj)
    qed
  qed
qed

lemma storage_location_inj:
  assumes "storage_location cfg a = storage_location cfg b"
    and "USE_S3 cfg \<or> \<not> starts_with_sep (MEMORY_DIR cfg) \<or> (\<not> starts_with_sep a \<and> \<not> starts_with_sep b)"
  shows "a = b"
proof (cases "USE_S3 cfg")
  case True
  with assms(1) show ?thesis by (simp add: storage_location_def get_memory_path_inj)
next
  case False
  with assms(1) have e: "path_join (MEMORY_DIR cfg) (get_memory_path a)
      = path_join (MEMORY_DIR cfg) (get_memory_path b)"
    by (simp add: storage_location_def)
  from assms(2) False have "get_memory_path a = get_memory_path b"
  proof (elim disjE)
    assume "\<not> starts_with_sep (MEMORY_DIR cfg)"
    then show ?thesis using e by (rule path_join_relative_dir_inj)
  next
    assume "\<not> starts_with_sep a \<and> \<not> starts_with_sep b"
    then show ?thesis using e
      by (auto intro: path_join_relative_inj simp: starts_with_sep_memory_path)
  qed simp
  then show ?thesis by (rule get_memory_path_inj)
qed

section \<open>Loading and saving\<close>

text \<open>
  \<open>load_conversation\<close> reads nothing but the content at the location of the session,
  and \<open>save_conversation\<close> writes nothing but that content.
\<close>

lemma load_conversation_stored:
  "stored cfg w2 sid = stored cfg w sid \<Longrightarrow>
   load_conversation cfg e w2 sid = load_conversation cfg e w sid"
  by (cases "USE_S3 cfg"; cases "read_fault e")
    (simp_all add: load_conversation_def stored_def get_object_def path_exists_def
      read_file_def Let_def)

lemma save_conversation_stored_other:
  "storage_location cfg b \<noteq> storage_location cfg a \<Longrightarrow>
   stored cfg (snd (save_conversation cfg e w a messages)) b = stored cfg w b"
  by (cases "USE_S3 cfg")
    (auto simp add: save_conversation_def stored_def storage_location_def put_object_def
      write_file_def Let_def split: option.splits write_fault.splits)

lemma save_conversation_stored_same:
  "save_conversation cfg e w a messages = (Inr u, w2) \<Longrightarrow>
   stored cfg w2 a = Some (Document messages)"
  by (auto simp add: save_conversation_def stored_def put_object_def
      write_file_def Let_def split: option.splits write_fault.splits if_splits)

lemma save_conversation_llm_calls:
  "llm_calls (snd (save_conversation cfg e w a messages)) = llm_calls w"
  by (simp add: save_conversation_def put_object_def
      write_file_def Let_def split: option.splits write_fault.splits)

lemma load_conversation_of_stored:
  "read_fault e = None \<Longrightarrow> stored cfg w sid = Some (Document messages) \<Longrightarrow>
   load_conversation cfg e w sid = Inr messages"
  by (cases "USE_S3 cfg")
    (simp_all add: load_conversation_def stored_def get_object_def path_exists_def
      read_file_def Let_def)

lemma stored_llm_calls_update:
  "stored cfg (w\<lparr>llm_calls := c\<rparr>) sid = stored cfg w sid"
  by (simp add: stored_def)

section \<open>The steps of a chat turn\<close>

lemma chat_try_load_fault:
  "load_conversation cfg e w (chat_session_id e request) = Inl x \<Longrightarrow>
   chat_try cfg e w request = (Inl x, w)"
  by (simp add: chat_try_def)

lemma chat_try_invoke_fault:
  "load_conversation cfg e w (chat_session_id e request) = Inr conversation \<Longrightarrow>
   llm_invoke e (chat_lc_messages cfg conversation request) = Inl x \<Longrightarrow>
   chat_try cfg e w request
     = (Inl x, w\<lparr>llm_calls := llm_calls w @ [chat_lc_messages cfg conversation request]\<rparr>)"
  by (simp add: chat_try_def Let_def)

lemma chat_try_save:
  "load_conversation cfg e w (chat_session_id e request) = Inr conversation \<Longrightarrow>
   llm_invoke e (chat_lc_messages cfg conversation request) = Inr a \<Longrightarrow>
   chat_try cfg e w request
     = (case save_conversation cfg e
              (w\<lparr>llm_calls := llm_calls w @ [chat_lc_messages cfg conversation request]\<rparr>)
              (chat_session_id e request)
              (conversation @ turn_records (message request) a (now_isoformat e)) of
          (Inl x, w2) \<Rightarrow> (Inl x, w2)
        | (Inr u, w2) \<Rightarrow> (Inr (ChatResponse a (chat_session_id e request)), w2))"
  by (simp add: chat_try_def Let_def)

lemma chat_try_stored_other:
  assumes "storage_location cfg b \<noteq> storage_location cfg (chat_session_id e request)"
  shows "stored cfg (snd (chat_try cfg e w request)) b = stored cfg w b"
proof (cases "load_conversation cfg e w (chat_session_id e request)")
  case (Inl x)
  then show ?thesis by (simp add: chat_try_load_fault)
next
  case (Inr conversation)
  show ?thesis
  proof (cases "llm_invoke e (chat_lc_messages cfg conversation request)")
    case (Inl x)
    with Inr show ?thesis by (simp add: chat_try_invoke_fault stored_llm_calls_update)
  next
    case a: (Inr a)
    let ?w1 = "w\<lparr>llm_calls := llm_calls w @ [chat_lc_messages cfg conversation request]\<rparr>"
    let ?s = "save_conversation cfg e ?w1 (chat_session_id e request)
              (conversation @ turn_records (message request) a (now_isoformat e))"
    have "snd (chat_try cfg e w request) = snd ?s"
      using Inr a by (simp add: chat_try_save split: prod.splits sum.splits)
    moreover have "stored cfg (snd ?s) b = stored cfg ?w1 b"
      using assms by (rule save_conversation_stored_other)
    ultimately show ?thesis by (simp add: stored_llm_calls_update)
  qed
qed

lemma snd_chat: "snd (chat cfg e w request) = snd (chat_try cfg e w request)"
  by (simp add: chat_def split: prod.splits sum.splits)

lemma chat_Returned:
  "chat cfg e w request = (Returned r, w2) \<longleftrightarrow> chat_try cfg e w request = (Inr r, w2)"
  by (auto simp add: chat_def split: prod.splits sum.splits)

lemma chat_try_success:
  assumes "chat_try cfg e w request = (Inr r, w2)"
  shows "\<exists>conversation.
           load_conversation cfg e w (chat_session_id e request) = Inr conversation
         \<and> llm_invoke e (chat_lc_messages cfg conversation request) = Inr (response r)
         \<and> ChatResponse.session_id r = chat_session_id e request
         \<and> save_conversation cfg e
              (w\<lparr>llm_calls := llm_calls w @ [chat_lc_messages cfg conversation request]\<rparr>)
              (chat_session_id e request)
              (conversation @ turn_records (message request) (response r) (now_isoformat e))
            = (Inr (), w2)"
  using assms
  by (auto simp add: chat_try_def Let_def split: sum.splits prod.splits)

section \<open>Properties of the specification\<close>

lemmas sample_defs = cfg_local_def cfg_s3_def cfg_abs_def env_ok_def world_empty_def

lemmas eval_defs = chat_def chat_try_def chat_session_id_def load_conversation_def
  save_conversation_def get_object_def put_object_def path_exists_def read_file_def
  write_file_def get_memory_path_def path_join_def ends_with_sep_def chat_lc_messages_def
  turn_records_def to_lc_messages_def slice_last_def dict_get_def get_conversation_def
  Let_def

subsection \<open>C1\<close>

text \<open>
  C1. A successful call of \<open>chat\<close> with message \<open>m\<close> persists the loaded history
  followed by exactly two records, the user record with content \<open>m\<close> and then the
  assistant record whose content is the returned response text, both with the same
  timestamp; the records stored before stay as they were, in their order. The persisted
  history is what the next read of the session gives.
\<close>

theorem chat_appends_turn:
  assumes "chat cfg e w request = (Returned r, w2)"
    and "read_fault e2 = None"
  shows "\<exists>conversation.
           load_conversation cfg e w (ChatResponse.session_id r) = Inr conversation
         \<and> load_conversation cfg e2 w2 (ChatResponse.session_id r)
             = Inr (conversation @
                 [[(''role'', ''user''), (''content'', message request),
                   (''timestamp'', now_isoformat e)],
                  [(''role'', ''assistant''), (''content'', response r),
                   (''timestamp'', now_isoformat e)]])"
proof -
  from assms(1) have "chat_try cfg e w request = (Inr r, w2)" by (simp add: chat_Returned)
  then obtain conversation where
    l: "load_conversation cfg e w (chat_session_id e request) = Inr conversation"
    and s: "ChatResponse.session_id r = chat_session_id e request"
    and sv: "save_conversation cfg e
              (w\<lparr>llm_calls := llm_calls w @ [chat_lc_messages cfg conversation request]\<rparr>)
              (chat_session_id e request)
              (conversation @ turn_records (message request) (response r) (now_isoformat e))
            = (Inr (), w2)"
    using chat_try_success by blast
  from sv have "stored cfg w2 (chat_session_id e request)
      = Some (Document (conversation @ turn_records (message request) (response r) (now_isoformat e)))"
    by (rule save_conversation_stored_same)
  with assms(2) have "load_conversation cfg e2 w2 (chat_session_id e request)
      = Inr (conversation @ turn_records (message request) (response r) (now_isoformat e))"
    by (rule load_conversation_of_stored)
  with l s show ?thesis by (simp add: turn_records_def)
qed

theorem chat_appends_turn_witness:
  "fst (chat cfg_local (env_ok 1) world_empty (ChatRequest ''Hello'' (Some ''s1'')))
     = Returned (ChatResponse ''Hi'' ''s1'')
   \<and> load_conversation cfg_local (env_ok 1) world_empty ''s1'' = Inr []
   \<and> load_conversation cfg_local (env_ok 1)
        (snd (chat cfg_local (env_ok 1) world_empty (ChatRequest ''Hello'' (Some ''s1'')))) ''s1''
      = Inr [[(''role'', ''user''), (''content'', ''Hello''),
              (''timestamp'', ''2024-05-01T10:00:00'')],
             [(''role'', ''assistant''), (''content'', ''Hi''),
              (''timestamp'', ''2024-05-01T10:00:00'')]]"
proof -
  let ?c = "chat cfg_local (env_ok 1) world_empty (ChatRequest ''Hello'' (Some ''s1''))"
  have r: "fst ?c = Returned (ChatResponse ''Hi'' ''s1'')"
    by (simp add: eval_defs sample_defs)
  then have c: "?c = (Returned (ChatResponse ''Hi'' ''s1''), snd ?c)"
    by (metis prod.collapse)
  have f: "read_fault (env_ok 1) = None" by (simp add: env_ok_def)
  have l: "load_conversation cfg_local (env_ok 1) world_empty ''s1'' = Inr []"
    by (simp add: eval_defs sample_defs)
  from chat_appends_turn [OF c f] l r show ?thesis
    by (simp add: env_ok_def)
qed

subsection \<open>C2\<close>

lemma concat_format_recognised:
  assumes "\<forall>msg \<in> set window.
             dict_get msg ''role'' = Some ''user'' \<or> dict_get msg ''role'' = Some ''assistant''"
  shows "concat (map spec_format_record window)
     = map (\<lambda>msg. if dict_get msg ''role'' = Some ''user''
                    then HumanMessage (dict_get msg ''content'')
                    else AIMessage (dict_get msg ''content'')) window"
  using assms by (induction window) (auto simp add: spec_format_record_def)

lemma llm_calls_chat_try:
  assumes "load_conversation cfg e w (chat_session_id e request) = Inr conversation"
  shows "llm_calls (snd (chat_try cfg e w request))
     = llm_calls w @ [chat_lc_messages cfg conversation request]"
proof (cases "llm_invoke e (chat_lc_messages cfg conversation request)")
  case (Inl x)
  with assms show ?thesis by (simp add: chat_try_invoke_fault)
next
  case (Inr a)
  let ?w1 = "w\<lparr>llm_calls := llm_calls w @ [chat_lc_messages cfg conversation request]\<rparr>"
  let ?s = "save_conversation cfg e ?w1 (chat_session_id e request)
              (conversation @ turn_records (message request) a (now_isoformat e))"
  have "snd (chat_try cfg e w request) = snd ?s"
    using assms Inr by (simp add: chat_try_save split: prod.splits sum.splits)
  then show ?thesis by (simp add: save_conversation_llm_calls)
qed

lemma load_s1: "load_conversation cfg_local (env_ok 1) world_s1 ''s1'' = Inr history11"
  by (simp add: eval_defs sample_defs world_s1_def)

lemma calls_s1: "llm_calls (snd (chat cfg_local (env_ok 1) world_s1 (ChatRequest ''Hello'' (Some ''s1''))))
      = [[SystemMessage ''You are a summarizer.'',
          HumanMessage (Some ''q1''), AIMessage (Some ''a1''),
          HumanMessage (Some ''q2''), AIMessage (Some ''a2''),
          HumanMessage (Some ''q3''), AIMessage (Some ''a3''),
          HumanMessage (Some ''q4''), AIMessage (Some ''a4''),
          HumanMessage (Some ''q5''), AIMessage (Some ''a5''),
          HumanMessage (Some ''Hello'')]]"
  by (simp add: eval_defs sample_defs world_s1_def history11_def sample_record_def)

text \<open>
  C2. Whatever the length of the stored history, the sequence \<open>chat\<close> sends to the model
  is the system message, then the formatted records of the window, then the new user
  message: at most 12 elements. The window is the suffix of the stored history of length
  \<open>min 10 n\<close>, that is, the most recent ten records (all of them if there are fewer),
  in stored order; when the records of the window carry the roles user or assistant, as
  the records of the data model do, the sequence holds exactly one message for each.
\<close>

theorem chat_model_input_window:
  assumes "load_conversation cfg e w (chat_session_id e request) = Inr conversation"
  shows "\<exists>older window history.
           llm_calls (snd (chat cfg e w request))
             = llm_calls w @
               [SystemMessage (system_prompt cfg) # history @ [HumanMessage (Some (message request))]]
         \<and> conversation = older @ window
         \<and> length window = min 10 (length conversation)
         \<and> history = concat (map spec_format_record window)
         \<and> length history \<le> 10
         \<and> length (SystemMessage (system_prompt cfg) # history
                    @ [HumanMessage (Some (message request))]) \<le> 12
         \<and> ((\<forall>msg \<in> set window.
                dict_get msg ''role'' = Some ''user'' \<or> dict_get msg ''role'' = Some ''assistant'')
              \<longrightarrow> history = map (\<lambda>msg. if dict_get msg ''role'' = Some ''user''
                                        then HumanMessage (dict_get msg ''content'')
                                        else AIMessage (dict_get msg ''content'')) window)"
proof -
  define window where "window = slice_last 10 conversation"
  define history where "history = concat (map spec_format_record window)"
  obtain older where o: "conversation = older @ window"
    unfolding window_def using slice_last_suffix by blast
  have lw: "length window = min 10 (length conversation)"
    unfolding window_def by (rule length_slice_last)
  have "length history \<le> length window"
    unfolding history_def by (rule length_concat_format)
  with lw have lh: "length history \<le> 10" by simp
  have sent: "chat_lc_messages cfg conversation request
      = SystemMessage (system_prompt cfg) # history @ [HumanMessage (Some (message request))]"
    by (simp add: chat_lc_messages_def to_lc_messages_def to_lc_loop_concat window_def history_def)
  have calls: "llm_calls (snd (chat cfg e w request))
      = llm_calls w @
        [SystemMessage (system_prompt cfg) # history @ [HumanMessage (Some (message request))]]"
    using llm_calls_chat_try [OF assms] by (simp add: snd_chat sent)
  have rec: "(\<forall>msg \<in> set window.
                dict_get msg ''role'' = Some ''user'' \<or> dict_get msg ''role'' = Some ''assistant'')
              \<longrightarrow> history = map (\<lambda>msg. if dict_get msg ''role'' = Some ''user''
                                        then HumanMessage (dict_get msg ''content'')
                                        else AIMessage (dict_get msg ''content'')) window"
    unfolding history_def using concat_format_recognised by blast
  have l12: "length (SystemMessage (system_prompt cfg) # history
                    @ [HumanMessage (Some (message request))]) \<le> 12"
    using lh by simp
  have h: "history = concat (map spec_format_record window)" by (rule history_def)
  from calls o lw h lh l12 rec show ?thesis by blast
qed

theorem chat_model_input_window_witness:
  "load_conversation cfg_local (env_ok 1) world_s1 ''s1'' = Inr history11
   \<and> length history11 = 11
   \<and> llm_calls (snd (chat cfg_local (env_ok 1) world_s1 (ChatRequest ''Hello'' (Some ''s1''))))
      = [[SystemMessage ''You are a summarizer.'',
          HumanMessage (Some ''q1''), AIMessage (Some ''a1''),
          HumanMessage (Some ''q2''), AIMessage (Some ''a2''),
          HumanMessage (Some ''q3''), AIMessage (Some ''a3''),
          HumanMessage (Some ''q4''), AIMessage (Some ''a4''),
          HumanMessage (Some ''q5''), AIMessage (Some ''a5''),
          HumanMessage (Some ''Hello'')]]
   \<and> (\<exists>older window.
         history11 = older @ window \<and> length window = 10
       \<and> llm_calls (snd (chat cfg_local (env_ok 1) world_s1 (ChatRequest ''Hello'' (Some ''s1''))))
          = [SystemMessage ''You are a summarizer.''
             # map (\<lambda>msg. if dict_get msg ''role'' = Some ''user''
                           then HumanMessage (dict_get msg ''content'')
                           else AIMessage (dict_get msg ''content'')) window
             @ [HumanMessage (Some ''Hello'')]])"
proof -
  let ?req = "ChatRequest ''Hello'' (Some ''s1'')"
  have sid: "chat_session_id (env_ok 1) ?req = ''s1''" by (simp add: chat_session_id_def)
  have l: "load_conversation cfg_local (env_ok 1) world_s1 (chat_session_id (env_ok 1) ?req)
      = Inr history11"
    by (simp only: sid) (simp add: eval_defs sample_defs world_s1_def)
  have n: "length history11 = 11" by (simp add: history11_def)
  have roles: "\<forall>msg \<in> set history11.
      dict_get msg ''role'' = Some ''user'' \<or> dict_get msg ''role'' = Some ''assistant''"
    by (simp add: history11_def sample_record_def dict_get_def)
  from chat_model_input_window [OF l] obtain older window history where
    c: "llm_calls (snd (chat cfg_local (env_ok 1) world_s1 ?req))
          = llm_calls world_s1 @
            [SystemMessage (system_prompt cfg_local) # history @ [HumanMessage (Some (message ?req))]]"
    and o: "history11 = older @ window"
    and lw: "length window = min 10 (length history11)"
    and r: "(\<forall>msg \<in> set window.
                dict_get msg ''role'' = Some ''user'' \<or> dict_get msg ''role'' = Some ''assistant'')
              \<longrightarrow> history = map (\<lambda>msg. if dict_get msg ''role'' = Some ''user''
                                        then HumanMessage (dict_get msg ''content'')
                                        else AIMessage (dict_get msg ''content'')) window"
    by blast
  from o have "set window \<subseteq> set history11" by (metis set_append sup_ge2)
  with roles r have h: "history = map (\<lambda>msg. if dict_get msg ''role'' = Some ''user''
                                        then HumanMessage (dict_get msg ''content'')
                                        else AIMessage (dict_get msg ''content'')) window"
    by blast
  from lw n have lw10: "length window = 10" by simp
  have e: "llm_calls world_s1 = []" "system_prompt cfg_local = ''You are a summarizer.''"
    by (simp_all add: world_s1_def sample_defs)
  from c h e have c2: "llm_calls (snd (chat cfg_local (env_ok 1) world_s1 ?req))
          = [SystemMessage ''You are a summarizer.''
             # map (\<lambda>msg. if dict_get msg ''role'' = Some ''user''
                           then HumanMessage (dict_get msg ''content'')
                           else AIMessage (dict_get msg ''content'')) window
             @ [HumanMessage (Some ''Hello'')]]"
    by simp
  from o lw10 c2 have ex: "\<exists>older window.
         history11 = older @ window \<and> length window = 10
       \<and> llm_calls (snd (chat cfg_local (env_ok 1) world_s1 ?req))
          = [SystemMessage ''You are a summarizer.''
             # map (\<lambda>msg. if dict_get msg ''role'' = Some ''user''
                           then HumanMessage (dict_get msg ''content'')
                           else AIMessage (dict_get msg ''content'')) window
             @ [HumanMessage (Some ''Hello'')]]"
    by blast
  from load_s1 n calls_s1 ex show ?thesis by (intro conjI)
qed

subsection \<open>C3\<close>

text \<open>
  C3. For every list of records and every system prompt, the output of the formatter is
  the system message followed, in input order, by one human message for each record with
  role user and one model message for each record with role assistant, each with the
  content of its record; a record with any other role contributes nothing.
\<close>

theorem to_lc_messages_format:
  "to_lc_messages conversation sys_prompt
     = SystemMessage sys_prompt # concat (map spec_format_record conversation)"
  by (simp add: to_lc_messages_def to_lc_loop_concat)

subsection \<open>C4\<close>

lemma load_conversation_storage_fault:
  assumes "storage_fault cfg e w sid = Some x"
  shows "load_conversation cfg e w sid
     = (if USE_S3 cfg \<and> is_no_such_key x then Inr [] else Inl x)"
proof (cases "USE_S3 cfg")
  case True
  with assms have "get_object e w (S3_BUCKET cfg) (get_memory_path sid) = Inl x"
    by (simp add: storage_fault_def split: sum.splits)
  with True show ?thesis
    by (cases x) (simp_all add: load_conversation_def)
next
  case False
  with assms have "path_exists w (path_join (MEMORY_DIR cfg) (get_memory_path sid))"
    and "read_file e w (path_join (MEMORY_DIR cfg) (get_memory_path sid)) = Inl x"
    by (simp_all add: storage_fault_def split: sum.splits if_splits)
  with False show ?thesis by (simp add: load_conversation_def Let_def)
qed

text \<open>
  C4. When the storage layer raises on the read of \<open>load_conversation\<close>: a key-not-found
  answer of the object store is not raised further, the load gives the empty list; any
  other fault leaves \<open>load_conversation\<close> as it came, \<open>get_conversation\<close> answers with
  status 500, and so does \<open>chat\<close> for that session.
\<close>

theorem load_not_found_and_faults:
  assumes "storage_fault cfg e w sid = Some x"
  shows "(USE_S3 cfg \<and> is_no_such_key x \<longrightarrow>
            load_conversation cfg e w sid = Inr []
          \<and> get_conversation cfg e w sid = Returned (sid, []))
       \<and> (\<not> (USE_S3 cfg \<and> is_no_such_key x) \<longrightarrow>
            load_conversation cfg e w sid = Inl x
          \<and> get_conversation cfg e w sid = HTTPException 500 (str_exn x)
          \<and> (chat_session_id e request = sid \<longrightarrow>
               chat cfg e w request
                 = (HTTPException 500 (''Internal Server Error: '' @ str_exn x), w)))"
proof -
  note l = load_conversation_storage_fault [OF assms]
  show ?thesis
  proof (cases "USE_S3 cfg \<and> is_no_such_key x")
    case True
    with l show ?thesis by (simp add: get_conversation_def)
  next
    case False
    with l have f: "load_conversation cfg e w sid = Inl x" by simp
    then have "chat_session_id e request = sid \<Longrightarrow>
        chat cfg e w request = (HTTPException 500 (''Internal Server Error: '' @ str_exn x), w)"
      by (simp add: chat_def chat_try_load_fault)
    with f False show ?thesis by (simp add: get_conversation_def)
  qed
qed

theorem load_not_found_and_faults_witness:
  "storage_fault cfg_s3 (env_ok 1) world_empty ''s1''
     = Some (ClientError ''NoSuchKey'' ''The specified key does not exist.'')
   \<and> load_conversation cfg_s3 (env_ok 1) world_empty ''s1'' = Inr []
   \<and> get_conversation cfg_s3 (env_ok 1) world_empty ''s1'' = Returned (''s1'', [])
   \<and> storage_fault cfg_s3 (env_read_fault (ClientError ''AccessDenied'' ''Access Denied''))
        world_empty ''s1'' = Some (ClientError ''AccessDenied'' ''Access Denied'')
   \<and> load_conversation cfg_s3 (env_read_fault (ClientError ''AccessDenied'' ''Access Denied''))
        world_empty ''s1'' = Inl (ClientError ''AccessDenied'' ''Access Denied'')
   \<and> get_conversation cfg_s3 (env_read_fault (ClientError ''AccessDenied'' ''Access Denied''))
        world_empty ''s1'' = HTTPException 500 ''Access Denied''
   \<and> chat cfg_s3 (env_read_fault (ClientError ''AccessDenied'' ''Access Denied''))
        world_empty (ChatRequest ''Hello'' (Some ''s1''))
      = (HTTPException 500 ''Internal Server Error: Access Denied'', world_empty)
   \<and> storage_fault cfg_local (env_read_fault (OtherException ''Permission denied''))
        world_s1 ''s1'' = Some (OtherException ''Permission denied'')
   \<and> get_conversation cfg_local (env_read_fault (OtherException ''Permission denied''))
        world_s1 ''s1'' = HTTPException 500 ''Permission denied''"
proof -
  let ?nf = "ClientError ''NoSuchKey'' ''The specified key does not exist.''"
  let ?ad = "ClientError ''AccessDenied'' ''Access Denied''"
  let ?pd = "OtherException ''Permission denied''"
  let ?req = "ChatRequest ''Hello'' (Some ''s1'')"
  have s: "USE_S3 cfg_s3" "\<not> USE_S3 cfg_local" by (simp_all add: sample_defs)
  have k: "is_no_such_key ?nf" "\<not> is_no_such_key ?ad" "\<not> is_no_such_key ?pd" by simp_all
  have sid: "chat_session_id (env_read_fault ?ad) ?req = ''s1''"
    by (simp add: chat_session_id_def)
  have f1: "storage_fault cfg_s3 (env_ok 1) world_empty ''s1'' = Some ?nf"
    by (simp add: storage_fault_def get_object_def sample_defs)
  have f2: "storage_fault cfg_s3 (env_read_fault ?ad) world_empty ''s1'' = Some ?ad"
    by (simp add: storage_fault_def get_object_def sample_defs env_read_fault_def)
  have f3: "storage_fault cfg_local (env_read_fault ?pd) world_s1 ''s1'' = Some ?pd"
    by (simp add: storage_fault_def read_file_def path_exists_def path_join_def
        get_memory_path_def ends_with_sep_def sample_defs env_read_fault_def world_s1_def)
  from load_not_found_and_faults [OF f1, of ?req] s k
  have c1: "load_conversation cfg_s3 (env_ok 1) world_empty ''s1'' = Inr []"
    "get_conversation cfg_s3 (env_ok 1) world_empty ''s1'' = Returned (''s1'', [])"
    by simp_all
  from load_not_found_and_faults [OF f2, of ?req] s k sid
  have c2: "load_conversation cfg_s3 (env_read_fault ?ad) world_empty ''s1'' = Inl ?ad"
    "get_conversation cfg_s3 (env_read_fault ?ad) world_empty ''s1'' = HTTPException 500 ''Access Denied''"
    "chat cfg_s3 (env_read_fault ?ad) world_empty ?req
      = (HTTPException 500 ''Internal Server Error: Access Denied'', world_empty)"
    by simp_all
  from load_not_found_and_faults [OF f3, of ?req] s k
  have c3: "get_conversation cfg_local (env_read_fault ?pd) world_s1 ''s1''
      = HTTPException 500 ''Permission denied''"
    by simp
  from f1 c1 f2 c2 f3 c3 show ?thesis by (intro conjI)
qed

subsection \<open>C5\<close>

text \<open>
  C5. Round trip, in both backends: after a save that returned, a load of the same
  session id (with no fault on the read) gives the list that was saved, record for
  record.
\<close>

theorem save_load_roundtrip:
  assumes "save_conversation cfg e w sid messages = (Inr (), w2)"
    and "read_fault e2 = None"
  shows "load_conversation cfg e2 w2 sid = Inr messages"
proof -
  from assms(1) have "stored cfg w2 sid = Some (Document messages)"
    by (rule save_conversation_stored_same)
  with assms(2) show ?thesis by (rule load_conversation_of_stored)
qed

theorem save_load_roundtrip_witness:
  "fst (save_conversation cfg_local (env_ok 1) world_empty ''s1'' history11) = Inr ()
   \<and> load_conversation cfg_local (env_ok 2)
        (snd (save_conversation cfg_local (env_ok 1) world_empty ''s1'' history11)) ''s1''
      = Inr history11
   \<and> fst (save_conversation cfg_s3 (env_ok 1) world_empty ''s1'' history11) = Inr ()
   \<and> load_conversation cfg_s3 (env_ok 2)
        (snd (save_conversation cfg_s3 (env_ok 1) world_empty ''s1'' history11)) ''s1''
      = Inr history11"
proof -
  let ?l = "save_conversation cfg_local (env_ok 1) world_empty ''s1'' history11"
  let ?s = "save_conversation cfg_s3 (env_ok 1) world_empty ''s1'' history11"
  have l: "fst ?l = Inr ()" and s: "fst ?s = Inr ()"
    by (simp_all add: save_conversation_def write_file_def put_object_def sample_defs Let_def)
  have l2: "?l = (Inr (), snd ?l)" using l by (metis prod.collapse)
  have s2: "?s = (Inr (), snd ?s)" using s by (metis prod.collapse)
  have f: "read_fault (env_ok 2) = None" by (simp add: env_ok_def)
  from l s save_load_roundtrip [OF l2 f] save_load_roundtrip [OF s2 f]
  show ?thesis by (intro conjI)
qed

subsection \<open>C6\<close>

text \<open>
  C6. For a session id with no file or object at its location (and an object store that
  answers the retrieval), \<open>load_conversation\<close> gives the empty list and
  \<open>get_conversation\<close> returns the id with an empty list of messages.
\<close>

theorem load_unseen_session_empty:
  assumes "stored cfg w sid = None"
    and "USE_S3 cfg \<longrightarrow> read_fault e = None"
  shows "load_conversation cfg e w sid = Inr []
       \<and> get_conversation cfg e w sid = Returned (sid, [])"
proof -
  have "load_conversation cfg e w sid = Inr []"
    using assms
    by (cases "USE_S3 cfg")
      (simp_all add: load_conversation_def stored_def get_object_def path_exists_def Let_def)
  then show ?thesis by (simp add: get_conversation_def)
qed

theorem load_unseen_session_empty_witness:
  "stored cfg_local world_empty ''never-seen'' = None
   \<and> load_conversation cfg_local (env_ok 1) world_empty ''never-seen'' = Inr []
   \<and> get_conversation cfg_local (env_ok 1) world_empty ''never-seen'' = Returned (''never-seen'', [])
   \<and> stored cfg_s3 world_empty ''never-seen'' = None
   \<and> read_fault (env_ok 1) = None
   \<and> load_conversation cfg_s3 (env_ok 1) world_empty ''never-seen'' = Inr []
   \<and> get_conversation cfg_s3 (env_ok 1) world_empty ''never-seen'' = Returned (''never-seen'', [])"
proof -
  have a: "stored cfg_local world_empty ''never-seen'' = None"
    and b: "stored cfg_s3 world_empty ''never-seen'' = None"
    by (simp_all add: stored_def sample_defs)
  have f: "read_fault (env_ok 1) = None" by (simp add: env_ok_def)
  then have g: "\<And>cfg. USE_S3 cfg \<longrightarrow> read_fault (env_ok 1) = None" by simp
  from a b f load_unseen_session_empty [OF a g] load_unseen_session_empty [OF b g]
  show ?thesis by simp
qed

subsection \<open>C7\<close>

lemma chat_of_chat_try_fault:
  "chat_try cfg e w request = (Inl x, w2) \<Longrightarrow>
   chat cfg e w request = (HTTPException 500 (''Internal Server Error: '' @ str_exn x), w2)"
  by (simp add: chat_def)

lemma chat_not_uncaught: "fst (chat cfg e w request) \<noteq> Uncaught x"
  by (simp add: chat_def split: prod.splits sum.splits)

lemma load_conversation_same_storage:
  "s3_objects w2 = s3_objects w \<Longrightarrow> files w2 = files w \<Longrightarrow>
   load_conversation cfg e w2 sid = load_conversation cfg e w sid"
  by (rule load_conversation_stored) (simp add: stored_def)

text \<open>
  C7. No exception escapes \<open>chat\<close>. A fault of the load (storage or decoding), of the
  model call or of the save is answered with status 500 and a detail that ends with the
  description of the fault. When the fault comes before the save (from the load or from
  the model call), the files and objects are what they were, so every later read gives
  what it gave before the call.
\<close>

theorem chat_fault_boundary:
  "(\<forall>x. fst (chat cfg e w request) \<noteq> Uncaught x)
   \<and> (chat_try cfg e w request = (Inl x, w2) \<longrightarrow>
        chat cfg e w request
          = (HTTPException 500 (''Internal Server Error: '' @ str_exn x), w2))
   \<and> (load_conversation cfg e w (chat_session_id e request) = Inl x \<longrightarrow>
        chat cfg e w request
          = (HTTPException 500 (''Internal Server Error: '' @ str_exn x), w))
   \<and> (load_conversation cfg e w (chat_session_id e request) = Inr conversation
        \<and> llm_invoke e (chat_lc_messages cfg conversation request) = Inl x \<longrightarrow>
        fst (chat cfg e w request)
          = HTTPException 500 (''Internal Server Error: '' @ str_exn x)
        \<and> s3_objects (snd (chat cfg e w request)) = s3_objects w
        \<and> files (snd (chat cfg e w request)) = files w
        \<and> (\<forall>e2 s. load_conversation cfg e2 (snd (chat cfg e w request)) s
                    = load_conversation cfg e2 w s))
   \<and> (load_conversation cfg e w (chat_session_id e request) = Inr conversation
        \<and> llm_invoke e (chat_lc_messages cfg conversation request) = Inr a
        \<and> save_conversation cfg e
             (w\<lparr>llm_calls := llm_calls w @ [chat_lc_messages cfg conversation request]\<rparr>)
             (chat_session_id e request)
             (conversation @ turn_records (message request) a (now_isoformat e))
           = (Inl x, w2) \<longrightarrow>
        chat cfg e w request
          = (HTTPException 500 (''Internal Server Error: '' @ str_exn x), w2))"
proof (intro conjI impI allI)
  fix y show "fst (chat cfg e w request) \<noteq> Uncaught y" by (rule chat_not_uncaught)
next
  assume "chat_try cfg e w request = (Inl x, w2)"
  then show "chat cfg e w request
      = (HTTPException 500 (''Internal Server Error: '' @ str_exn x), w2)"
    by (rule chat_of_chat_try_fault)
next
  assume "load_conversation cfg e w (chat_session_id e request) = Inl x"
  then have "chat_try cfg e w request = (Inl x, w)" by (rule chat_try_load_fault)
  then show "chat cfg e w request
      = (HTTPException 500 (''Internal Server Error: '' @ str_exn x), w)"
    by (rule chat_of_chat_try_fault)
next
  assume a: "load_conversation cfg e w (chat_session_id e request) = Inr conversation
        \<and> llm_invoke e (chat_lc_messages cfg conversation request) = Inl x"
  then have t: "chat_try cfg e w request
      = (Inl x, w\<lparr>llm_calls := llm_calls w @ [chat_lc_messages cfg conversation request]\<rparr>)"
    by (simp add: chat_try_invoke_fault)
  then have c: "chat cfg e w request
      = (HTTPException 500 (''Internal Server Error: '' @ str_exn x),
         w\<lparr>llm_calls := llm_calls w @ [chat_lc_messages cfg conversation request]\<rparr>)"
    by (rule chat_of_chat_try_fault)
  from c show "fst (chat cfg e w request)
      = HTTPException 500 (''Internal Server Error: '' @ str_exn x)" by simp
  from c show s3: "s3_objects (snd (chat cfg e w request)) = s3_objects w" by simp
  from c show fs: "files (snd (chat cfg e w request)) = files w" by simp
  fix e2 s
  from s3 fs show "load_conversation cfg e2 (snd (chat cfg e w request)) s
      = load_conversation cfg e2 w s"
    by (rule load_conversation_same_storage)
next
  assume a: "load_conversation cfg e w (chat_session_id e request) = Inr conversation
        \<and> llm_invoke e (chat_lc_messages cfg conversation request) = Inr a
        \<and> save_conversation cfg e
             (w\<lparr>llm_calls := llm_calls w @ [chat_lc_messages cfg conversation request]\<rparr>)
             (chat_session_id e request)
             (conversation @ turn_records (message request) a (now_isoformat e))
           = (Inl x, w2)"
  then have "chat_try cfg e w request = (Inl x, w2)"
    by (simp add: chat_try_save)
  then show "chat cfg e w request
      = (HTTPException 500 (''Internal Server Error: '' @ str_exn x), w2)"
    by (rule chat_of_chat_try_fault)
qed

theorem chat_fault_boundary_witness:
  "chat cfg_local (env_ok 1) world_bad (ChatRequest ''Hello'' (Some ''s1''))
     = (HTTPException 500 ''Internal Server Error: Expecting value: line 1 column 1 (char 0)'',
        world_bad)
   \<and> load_conversation cfg_local (env_llm_fault (OtherException ''Rate limit reached''))
         world_s1 ''s1'' = Inr history11
   \<and> fst (chat cfg_local (env_llm_fault (OtherException ''Rate limit reached'')) world_s1
          (ChatRequest ''Hello'' (Some ''s1'')))
     = HTTPException 500 ''Internal Server Error: Rate limit reached''
   \<and> load_conversation cfg_local (env_ok 2)
        (snd (chat cfg_local (env_llm_fault (OtherException ''Rate limit reached'')) world_s1
          (ChatRequest ''Hello'' (Some ''s1'')))) ''s1''
     = Inr history11
   \<and> fst (chat cfg_local (env_write_fault (OtherException ''No space left on device'')) world_s1
          (ChatRequest ''Hello'' (Some ''s1'')))
     = HTTPException 500 ''Internal Server Error: No space left on device''"
proof -
  let ?req = "ChatRequest ''Hello'' (Some ''s1'')"
  let ?rl = "OtherException ''Rate limit reached''"
  let ?ns = "OtherException ''No space left on device''"
  let ?jd = "JSONDecodeError ''Expecting value: line 1 column 1 (char 0)''"
  have sid: "\<And>e. chat_session_id e ?req = ''s1''" by (simp add: chat_session_id_def)
  have l1: "load_conversation cfg_local (env_ok 1) world_bad (chat_session_id (env_ok 1) ?req)
      = Inl ?jd"
    by (simp add: eval_defs sample_defs world_bad_def)
  have l2: "load_conversation cfg_local (env_llm_fault ?rl) world_s1 ''s1'' = Inr history11"
    by (simp add: eval_defs sample_defs world_s1_def env_llm_fault_def)
  have i2: "llm_invoke (env_llm_fault ?rl) (chat_lc_messages cfg_local history11 ?req) = Inl ?rl"
    by (simp add: env_llm_fault_def)
  have l3: "load_conversation cfg_local (env_write_fault ?ns) world_s1 ''s1'' = Inr history11"
    by (simp add: eval_defs sample_defs world_s1_def env_write_fault_def)
  have i3: "llm_invoke (env_write_fault ?ns) (chat_lc_messages cfg_local history11 ?req) = Inr ''Hi''"
    by (simp add: env_write_fault_def env_ok_def)
  let ?w1 = "world_s1\<lparr>llm_calls := llm_calls world_s1 @ [chat_lc_messages cfg_local history11 ?req]\<rparr>"
  have s3: "save_conversation cfg_local (env_write_fault ?ns) ?w1 (chat_session_id (env_write_fault ?ns) ?req)
      (history11 @ turn_records (message ?req) ''Hi'' (now_isoformat (env_write_fault ?ns)))
      = (Inl ?ns, ?w1)"
    by (simp add: save_conversation_def write_file_def env_write_fault_def sample_defs Let_def)
  from chat_fault_boundary [of cfg_local "env_ok 1" world_bad ?req ?jd]
  have c1: "chat cfg_local (env_ok 1) world_bad ?req
     = (HTTPException 500 ''Internal Server Error: Expecting value: line 1 column 1 (char 0)'',
        world_bad)"
    using l1 by simp
  from chat_fault_boundary [of cfg_local "env_llm_fault ?rl" world_s1 ?req ?rl _ history11]
  have c2: "fst (chat cfg_local (env_llm_fault ?rl) world_s1 ?req)
     = HTTPException 500 ''Internal Server Error: Rate limit reached''"
    and c2': "\<forall>e2 s. load_conversation cfg_local e2
          (snd (chat cfg_local (env_llm_fault ?rl) world_s1 ?req)) s
        = load_conversation cfg_local e2 world_s1 s"
    using l2 i2 by (simp_all add: sid)
  have l4: "load_conversation cfg_local (env_ok 2) world_s1 ''s1'' = Inr history11"
    by (simp add: eval_defs sample_defs world_s1_def)
  from c2' l4 have c2'': "load_conversation cfg_local (env_ok 2)
        (snd (chat cfg_local (env_llm_fault ?rl) world_s1 ?req)) ''s1'' = Inr history11"
    by simp
  from chat_fault_boundary [of cfg_local "env_write_fault ?ns" world_s1 ?req ?ns ?w1 history11 "''Hi''"]
  have c3: "fst (chat cfg_local (env_write_fault ?ns) world_s1 ?req)
     = HTTPException 500 ''Internal Server Error: No space left on device''"
    using l3 i3 s3 by (simp add: sid)
  from c1 l2 c2 c2'' c3 show ?thesis by (intro conjI)
qed

subsection \<open>C8\<close>

lemma chat_session_id_generated:
  "ChatRequest.session_id request = None \<or> ChatRequest.session_id request = Some [] \<Longrightarrow>
   chat_session_id e request = str_uuid (uuid4 e)"
  by (auto simp add: chat_session_id_def)

lemma chat_Returned_session_id:
  assumes "chat cfg e w request = (Returned r, w2)"
  shows "ChatResponse.session_id r = chat_session_id e request"
proof -
  from assms have "chat_try cfg e w request = (Inr r, w2)" by (simp add: chat_Returned)
  from chat_try_success [OF this] show ?thesis by blast
qed

lemma storage_location_uuid_distinct:
  assumes "u \<noteq> v"
  shows "storage_location cfg (str_uuid u) \<noteq> storage_location cfg (str_uuid v)"
proof
  assume e: "storage_location cfg (str_uuid u) = storage_location cfg (str_uuid v)"
  have "\<not> starts_with_sep (str_uuid u) \<and> \<not> starts_with_sep (str_uuid v)"
    by (simp add: str_uuid_relative)
  then have "USE_S3 cfg \<or> \<not> starts_with_sep (MEMORY_DIR cfg)
      \<or> (\<not> starts_with_sep (str_uuid u) \<and> \<not> starts_with_sep (str_uuid v))"
    by simp
  with e have "str_uuid u = str_uuid v" by (rule storage_location_inj)
  then have "u = v" by (rule str_uuid_inj)
  with assms show False by simp
qed

lemma chat_load_other:
  assumes "storage_location cfg b \<noteq> storage_location cfg (chat_session_id e request)"
  shows "load_conversation cfg e2 (snd (chat cfg e w request)) b = load_conversation cfg e2 w b"
proof -
  have "stored cfg (snd (chat_try cfg e w request)) b = stored cfg w b"
    using assms by (rule chat_try_stored_other)
  then have "load_conversation cfg e2 (snd (chat_try cfg e w request)) b
      = load_conversation cfg e2 w b"
    by (rule load_conversation_stored)
  then show ?thesis by (simp only: snd_chat)
qed

lemma chat_returns:
  assumes "load_conversation cfg e w (chat_session_id e request) = Inr conversation"
    and "llm_invoke e (chat_lc_messages cfg conversation request) = Inr a"
    and "write_fault e = None"
  shows "fst (chat cfg e w request) = Returned (ChatResponse a (chat_session_id e request))"
proof -
  have "fst (chat_try cfg e w request) = Inr (ChatResponse a (chat_session_id e request))"
    using assms(3)
    by (simp add: chat_try_save [OF assms(1,2)] save_conversation_def put_object_def
        write_file_def Let_def)
  then show ?thesis by (cases "chat_try cfg e w request") (simp add: chat_def)
qed

lemma hex_pad_numeral:
  "hex_pad (numeral k) n = hex_pad (pred_numeral k) (n div 16) @ [hex_digit (n mod 16)]"
proof -
  have "hex_pad (Suc (pred_numeral k)) n
      = hex_pad (pred_numeral k) (n div 16) @ [hex_digit (n mod 16)]"
    by (rule hex_pad.simps(2))
  then show ?thesis by (simp only: numeral_eq_Suc [of k, symmetric])
qed

lemma env_ok_fields:
  "read_fault (env_ok u) = None"
  "llm_invoke (env_ok u) lc_messages = Inr ''Hi''"
  "write_fault (env_ok u) = None"
  "now_isoformat (env_ok u) = ''2024-05-01T10:00:00''"
  "uuid4 (env_ok u) = u"
  by (simp_all add: env_ok_def)

lemma str_uuid_a: "str_uuid uuid_a = ''3f2504e0-4f89-41d3-9a0c-0305e82c3301''"
  by (simp add: uuid_a_def str_uuid_def hex_pad_numeral hex_digit_def Let_def)

lemma str_uuid_b: "str_uuid uuid_b = ''9b2e7a1c-5d3f-4e8a-a1b2-c3d4e5f60718''"
  by (simp add: uuid_b_def str_uuid_def hex_pad_numeral hex_digit_def Let_def)

lemma uuid_a_b: "uuid_a \<noteq> uuid_b"
  by (simp add: uuid_a_def uuid_b_def)

text \<open>
  C8. Two calls of \<open>chat\<close> without a session id, for which \<open>uuid4\<close> draws distinct
  values, use distinct session ids, return distinct ids when they return, and keep
  their histories at distinct locations (in the object store and in the local directory,
  whatever the directory is). Neither call changes what a read of the other session
  gives, in whichever world it runs.
\<close>

theorem generated_sessions_independent:
  assumes "ChatRequest.session_id request1 = None"
    and "ChatRequest.session_id request2 = None"
    and "uuid4 e1 \<noteq> uuid4 e2"
  shows "chat_session_id e1 request1 \<noteq> chat_session_id e2 request2
       \<and> (chat cfg e1 wa request1 = (Returned r1, wa2) \<and> chat cfg e2 wb request2 = (Returned r2, wb2)
            \<longrightarrow> ChatResponse.session_id r1 \<noteq> ChatResponse.session_id r2)
       \<and> storage_location cfg (chat_session_id e1 request1)
            \<noteq> storage_location cfg (chat_session_id e2 request2)
       \<and> load_conversation cfg e3 (snd (chat cfg e1 wa request1)) (chat_session_id e2 request2)
            = load_conversation cfg e3 wa (chat_session_id e2 request2)
       \<and> load_conversation cfg e3 (snd (chat cfg e2 wb request2)) (chat_session_id e1 request1)
            = load_conversation cfg e3 wb (chat_session_id e1 request1)"
proof -
  from assms(1) have s1: "chat_session_id e1 request1 = str_uuid (uuid4 e1)"
    by (simp add: chat_session_id_generated)
  from assms(2) have s2: "chat_session_id e2 request2 = str_uuid (uuid4 e2)"
    by (simp add: chat_session_id_generated)
  have d: "chat_session_id e1 request1 \<noteq> chat_session_id e2 request2"
  proof
    assume "chat_session_id e1 request1 = chat_session_id e2 request2"
    then have "str_uuid (uuid4 e1) = str_uuid (uuid4 e2)" unfolding s1 s2 .
    then have "uuid4 e1 = uuid4 e2" by (rule str_uuid_inj)
    with assms(3) show False by simp
  qed
  from assms(3) have "storage_location cfg (str_uuid (uuid4 e1))
      \<noteq> storage_location cfg (str_uuid (uuid4 e2))"
    by (rule storage_location_uuid_distinct)
  then have loc: "storage_location cfg (chat_session_id e1 request1)
            \<noteq> storage_location cfg (chat_session_id e2 request2)"
    unfolding s1 s2 .
  have r: "chat cfg e1 wa request1 = (Returned r1, wa2) \<and> chat cfg e2 wb request2 = (Returned r2, wb2)
            \<longrightarrow> ChatResponse.session_id r1 \<noteq> ChatResponse.session_id r2"
  proof
    assume c: "chat cfg e1 wa request1 = (Returned r1, wa2) \<and> chat cfg e2 wb request2 = (Returned r2, wb2)"
    from c have a: "ChatResponse.session_id r1 = chat_session_id e1 request1"
      using chat_Returned_session_id [of cfg e1 wa request1 r1 wa2] by blast
    from c have b: "ChatResponse.session_id r2 = chat_session_id e2 request2"
      using chat_Returned_session_id [of cfg e2 wb request2 r2 wb2] by blast
    from d show "ChatResponse.session_id r1 \<noteq> ChatResponse.session_id r2"
      unfolding a b .
  qed
  from loc have loc2: "storage_location cfg (chat_session_id e2 request2)
            \<noteq> storage_location cfg (chat_session_id e1 request1)"
    by (rule not_sym)
  have n1: "load_conversation cfg e3 (snd (chat cfg e1 wa request1)) (chat_session_id e2 request2)
            = load_conversation cfg e3 wa (chat_session_id e2 request2)"
    using loc2 by (rule chat_load_other)
  have n2: "load_conversation cfg e3 (snd (chat cfg e2 wb request2)) (chat_session_id e1 request1)
            = load_conversation cfg e3 wb (chat_session_id e1 request1)"
    using loc by (rule chat_load_other)
  from d r loc n1 n2 show ?thesis by (intro conjI)
qed

theorem generated_sessions_independent_witness:
  "fst (chat cfg_abs (env_ok uuid_a) world_empty (ChatRequest ''Hello'' None))
     = Returned (ChatResponse ''Hi'' ''3f2504e0-4f89-41d3-9a0c-0305e82c3301'')
   \<and> fst (chat cfg_abs (env_ok uuid_b)
          (snd (chat cfg_abs (env_ok uuid_a) world_empty (ChatRequest ''Hello'' None)))
          (ChatRequest ''Good morning'' None))
     = Returned (ChatResponse ''Hi'' ''9b2e7a1c-5d3f-4e8a-a1b2-c3d4e5f60718'')
   \<and> load_conversation cfg_abs (env_ok 1)
        (snd (chat cfg_abs (env_ok uuid_b)
          (snd (chat cfg_abs (env_ok uuid_a) world_empty (ChatRequest ''Hello'' None)))
          (ChatRequest ''Good morning'' None)))
        ''3f2504e0-4f89-41d3-9a0c-0305e82c3301''
     = Inr [[(''role'', ''user''), (''content'', ''Hello''),
             (''timestamp'', ''2024-05-01T10:00:00'')],
            [(''role'', ''assistant''), (''content'', ''Hi''),
             (''timestamp'', ''2024-05-01T10:00:00'')]]"
proof -
  let ?r1 = "ChatRequest ''Hello'' None"
  let ?r2 = "ChatRequest ''Good morning'' None"
  let ?w1 = "snd (chat cfg_abs (env_ok uuid_a) world_empty ?r1)"
  have n: "ChatRequest.session_id ?r1 = None" "ChatRequest.session_id ?r2 = None" by simp_all
  have u: "uuid4 (env_ok uuid_a) \<noteq> uuid4 (env_ok uuid_b)"
    by (simp add: env_ok_def uuid_a_b)
  have sa: "chat_session_id (env_ok uuid_a) ?r1 = ''3f2504e0-4f89-41d3-9a0c-0305e82c3301''"
    by (simp add: chat_session_id_def env_ok_fields str_uuid_a)
  have sb: "chat_session_id (env_ok uuid_b) ?r2 = ''9b2e7a1c-5d3f-4e8a-a1b2-c3d4e5f60718''"
    by (simp add: chat_session_id_def env_ok_fields str_uuid_b)
  have c1: "fst (chat cfg_abs (env_ok uuid_a) world_empty ?r1)
      = Returned (ChatResponse ''Hi'' ''3f2504e0-4f89-41d3-9a0c-0305e82c3301'')"
    by (simp add: chat_def chat_try_def sa load_conversation_def save_conversation_def
        path_exists_def write_file_def get_memory_path_def path_join_def ends_with_sep_def
        env_ok_fields cfg_abs_def world_empty_def Let_def)
  have l1: "load_conversation cfg_abs (env_ok 1) ?w1 ''3f2504e0-4f89-41d3-9a0c-0305e82c3301''
      = Inr [[(''role'', ''user''), (''content'', ''Hello''),
             (''timestamp'', ''2024-05-01T10:00:00'')],
            [(''role'', ''assistant''), (''content'', ''Hi''),
             (''timestamp'', ''2024-05-01T10:00:00'')]]"
    by (simp add: chat_def chat_try_def sa load_conversation_def save_conversation_def
        path_exists_def write_file_def read_file_def get_memory_path_def path_join_def
        ends_with_sep_def turn_records_def env_ok_fields cfg_abs_def world_empty_def Let_def)
  have l2: "load_conversation cfg_abs (env_ok uuid_b) ?w1 ''9b2e7a1c-5d3f-4e8a-a1b2-c3d4e5f60718''
      = Inr []"
    by (simp add: chat_def chat_try_def sa load_conversation_def save_conversation_def
        path_exists_def write_file_def read_file_def get_memory_path_def path_join_def
        ends_with_sep_def turn_records_def env_ok_fields cfg_abs_def world_empty_def Let_def)
  have c2: "fst (chat cfg_abs (env_ok uuid_b) ?w1 ?r2)
      = Returned (ChatResponse ''Hi'' ''9b2e7a1c-5d3f-4e8a-a1b2-c3d4e5f60718'')"
    using chat_returns [of cfg_abs "env_ok uuid_b" ?w1 ?r2 "[]" "''Hi''"] l2
    by (simp add: sb env_ok_fields)
  from generated_sessions_independent [OF n u, where cfg = cfg_abs and ?e3.0 = "env_ok 1" and wb = ?w1]
  have "load_conversation cfg_abs (env_ok 1) (snd (chat cfg_abs (env_ok uuid_b) ?w1 ?r2))
          ''3f2504e0-4f89-41d3-9a0c-0305e82c3301''
      = load_conversation cfg_abs (env_ok 1) ?w1 ''3f2504e0-4f89-41d3-9a0c-0305e82c3301''"
    by (simp only: sa sb)
  with l1 have l3: "load_conversation cfg_abs (env_ok 1) (snd (chat cfg_abs (env_ok uuid_b) ?w1 ?r2))
          ''3f2504e0-4f89-41d3-9a0c-0305e82c3301''
      = Inr [[(''role'', ''user''), (''content'', ''Hello''),
             (''timestamp'', ''2024-05-01T10:00:00'')],
            [(''role'', ''assistant''), (''content'', ''Hi''),
             (''timestamp'', ''2024-05-01T10:00:00'')]]"
    by simp
  from c1 c2 l3 show ?thesis by (intro conjI)
qed

subsection \<open>C9\<close>

lemma storage_location_empty_uuid:
  "storage_location cfg [] \<noteq> storage_location cfg (str_uuid u)"
proof
  assume e: "storage_location cfg [] = storage_location cfg (str_uuid u)"
  have "\<not> starts_with_sep [] \<and> \<not> starts_with_sep (str_uuid u)"
    by (simp add: str_uuid_relative)
  then have "USE_S3 cfg \<or> \<not> starts_with_sep (MEMORY_DIR cfg)
      \<or> (\<not> starts_with_sep [] \<and> \<not> starts_with_sep (str_uuid u))"
    by simp
  with e have "[] = str_uuid u" by (rule storage_location_inj)
  then show False using str_uuid_nonempty [of u] by simp
qed

lemma chat_try_request_cong:
  assumes "chat_session_id e r1 = chat_session_id e r2" and "message r1 = message r2"
  shows "chat_try cfg e w r1 = chat_try cfg e w r2"
proof -
  have lc: "\<And>conversation. chat_lc_messages cfg conversation r1
      = chat_lc_messages cfg conversation r2"
    by (simp add: chat_lc_messages_def assms(2))
  show ?thesis
    unfolding chat_try_def assms lc ..
qed

text \<open>
  C9. A request whose session id is the empty string is handled as a request without
  one: the call gives the same result and the same world, the session id used and
  returned is the generated one, which is not empty, and nothing is written at the
  location the empty string would have as a key.
\<close>

theorem empty_session_id_is_absent:
  assumes "ChatRequest.session_id request = Some []"
  shows "chat cfg e w request = chat cfg e w (ChatRequest (message request) None)
       \<and> chat_session_id e request = str_uuid (uuid4 e)
       \<and> chat_session_id e request \<noteq> []
       \<and> (chat cfg e w request = (Returned r, w2) \<longrightarrow>
            ChatResponse.session_id r = str_uuid (uuid4 e))
       \<and> stored cfg (snd (chat cfg e w request)) [] = stored cfg w []
       \<and> load_conversation cfg e2 (snd (chat cfg e w request)) []
            = load_conversation cfg e2 w []"
proof -
  from assms have s: "chat_session_id e request = str_uuid (uuid4 e)"
    by (simp add: chat_session_id_generated)
  have s2: "chat_session_id e (ChatRequest (message request) None) = str_uuid (uuid4 e)"
    by (simp add: chat_session_id_generated)
  have same: "chat cfg e w request = chat cfg e w (ChatRequest (message request) None)"
  proof -
    have "chat_try cfg e w request = chat_try cfg e w (ChatRequest (message request) None)"
      by (rule chat_try_request_cong) (simp_all add: s s2)
    then show ?thesis by (simp only: chat_def)
  qed
  from s have ne: "chat_session_id e request \<noteq> []" by (simp add: str_uuid_nonempty)
  have ret: "chat cfg e w request = (Returned r, w2) \<longrightarrow>
            ChatResponse.session_id r = str_uuid (uuid4 e)"
    using chat_Returned_session_id [of cfg e w request r w2] s by simp
  have loc: "storage_location cfg [] \<noteq> storage_location cfg (chat_session_id e request)"
    unfolding s by (rule storage_location_empty_uuid)
  then have "stored cfg (snd (chat_try cfg e w request)) [] = stored cfg w []"
    by (rule chat_try_stored_other)
  then have st: "stored cfg (snd (chat cfg e w request)) [] = stored cfg w []"
    by (simp only: snd_chat)
  from loc have ld: "load_conversation cfg e2 (snd (chat cfg e w request)) []
            = load_conversation cfg e2 w []"
    by (rule chat_load_other)
  from same s ne ret st ld show ?thesis by (intro conjI)
qed

theorem empty_session_id_is_absent_witness:
  "ChatRequest.session_id (ChatRequest ''Hello'' (Some [])) = Some []
   \<and> chat cfg_local (env_ok uuid_a) world_empty (ChatRequest ''Hello'' (Some []))
      = chat cfg_local (env_ok uuid_a) world_empty (ChatRequest ''Hello'' None)
   \<and> chat_session_id (env_ok uuid_a) (ChatRequest ''Hello'' (Some []))
      = ''3f2504e0-4f89-41d3-9a0c-0305e82c3301''
   \<and> fst (chat cfg_local (env_ok uuid_a) world_empty (ChatRequest ''Hello'' (Some [])))
      = Returned (ChatResponse ''Hi'' ''3f2504e0-4f89-41d3-9a0c-0305e82c3301'')
   \<and> load_conversation cfg_local (env_ok 1)
        (snd (chat cfg_local (env_ok uuid_a) world_empty (ChatRequest ''Hello'' (Some [])))) []
      = Inr []"
proof -
  let ?req = "ChatRequest ''Hello'' (Some [])"
  have a: "ChatRequest.session_id ?req = Some []" by simp
  note t = empty_session_id_is_absent [OF a, where cfg = cfg_local and e = "env_ok uuid_a"
      and w = world_empty and ?e2.0 = "env_ok 1"]
  have m: "message ?req = ''Hello''" by simp
  from t have same: "chat cfg_local (env_ok uuid_a) world_empty ?req
      = chat cfg_local (env_ok uuid_a) world_empty (ChatRequest ''Hello'' None)"
    by (simp only: m)
  from t have sid: "chat_session_id (env_ok uuid_a) ?req = ''3f2504e0-4f89-41d3-9a0c-0305e82c3301''"
    by (simp add: env_ok_fields str_uuid_a)
  have l0: "load_conversation cfg_local (env_ok uuid_a) world_empty (chat_session_id (env_ok uuid_a) ?req)
      = Inr []"
    by (simp add: sid load_conversation_def path_exists_def cfg_local_def world_empty_def Let_def)
  have r: "fst (chat cfg_local (env_ok uuid_a) world_empty ?req)
      = Returned (ChatResponse ''Hi'' ''3f2504e0-4f89-41d3-9a0c-0305e82c3301'')"
    using chat_returns [OF l0, of "''Hi''"] by (simp add: sid env_ok_fields)
  have l1: "load_conversation cfg_local (env_ok 1) world_empty [] = Inr []"
    by (simp add: load_conversation_def path_exists_def cfg_local_def world_empty_def Let_def)
  from t have "load_conversation cfg_local (env_ok 1)
        (snd (chat cfg_local (env_ok uuid_a) world_empty ?req)) []
      = load_conversation cfg_local (env_ok 1) world_empty []"
    by blast
  then have l2: "load_conversation cfg_local (env_ok 1)
        (snd (chat cfg_local (env_ok uuid_a) world_empty ?req)) [] = Inr []"
    using l1 by (rule trans)
  from a same sid r l2 show ?thesis by (intro conjI)
qed

subsection \<open>C10\<close>





end
